theory Spec2Isabelle
  imports Main "HOL-Library.Word"
begin

section \<open>Data exchanged with the remote metrics API\<close>

text \<open>
  The two Go files embedded here are \<^verbatim>\<open>pkg/promclient/debug.go\<close> (the logging decorator
  \<^verbatim>\<open>DebugAPI\<close>) and \<^verbatim>\<open>pkg/proxyquerier/querier.go\<close> (the querier \<^verbatim>\<open>ProxyQuerier\<close>).
  Values of third-party types are modelled by the content the two files touch:
  \<^item> \<^verbatim>\<open>time.Time\<close> is the instant it denotes, in nanoseconds since the Unix epoch;
    \<^verbatim>\<open>time.Duration\<close> is a number of nanoseconds;
  \<^item> \<^verbatim>\<open>context.Context\<close> is an opaque handle that is only passed on;
  \<^item> \<^verbatim>\<open>int64\<close> is a 64-bit word; a \<^verbatim>\<open>float64\<close> sample value is carried as its 64-bit
    IEEE-754 pattern (no arithmetic is done on it), so the Go zero value \<^verbatim>\<open>0.0\<close> is the
    word \<open>0\<close>;
  \<^item> a slice is a list, the nil slice being the empty list; a nil interface value is
    \<open>None\<close>; a pointer to a struct that nothing mutates is the struct.
\<close>

type_synonym time = int
type_synonym duration = int

datatype "context" = Context nat

datatype MatchType = MatchEqual | MatchNotEqual | MatchRegexp | MatchNotRegexp

datatype Matcher = Matcher (mType: MatchType) (mName: string) (mValue: string)

type_synonym LabelSet = "string \<rightharpoonup> string"

record Sample =
  Metric :: LabelSet
  Value :: "64 word"
  Timestamp :: "64 word"

datatype SamplePair = SamplePair (pTimestamp: "64 word") (pValue: "64 word")

datatype SampleStream = SampleStream (ssMetric: LabelSet) (ssValues: "SamplePair list")

text \<open>\<^verbatim>\<open>model.Value\<close>: the tagged union of remote result shapes.\<close>

datatype Value_model =
    Vector "Sample list"
  | Matrix "SampleStream list"
  | Scalar "64 word" "64 word"
  | String_model string "64 word"

datatype Range = Range (rStart: time) (rEnd: time) (rStep: duration)

record SelectParams =
  sp_Start :: "64 word"
  sp_End :: "64 word"

text \<open>
  Go errors. The remote client wraps errors with \<^verbatim>\<open>github.com/pkg/errors\<close>: a wrapper
  carries its cause, a fundamental error has none.
\<close>

datatype error =
    Fundamental string
  | WithMessage error string
  | WithStack error

section \<open>The world: remote state, logger and clock\<close>

text \<open>
  Every effect of the two files is one of: a call on the wrapped client (which acts on
  the state \<open>remote\<close> behind it, and on anything else of the world), a line handed to
  logrus, a reading of \<^verbatim>\<open>time.Now()\<close>. The clock is the sequence of readings it will
  give; \<open>reads\<close> counts the readings taken.
\<close>

datatype field =
    FString string
  | FStrings "string list"
  | FTime time
  | FDuration duration
  | FRange Range
  | FMatchers "Matcher list"
  | FSelectParams "SelectParams option"
  | FLabelSets "LabelSet list"
  | FValue "Value_model option"
  | FWarnings "string list"
  | FError "error option"

type_synonym Fields = "string \<rightharpoonup> field"

type_synonym entry = "nat \<times> Fields \<times> string"

record 'r world =
  remote :: 'r
  level :: nat
  entries :: "entry list"
  clock :: "nat \<Rightarrow> time"
  reads :: nat

definition time_Now :: "'r world \<Rightarrow> time \<times> 'r world" where
  "time_Now w = (clock w (reads w), w\<lparr>reads := Suc (reads w)\<rparr>)"

text \<open>logrus levels are numbers: \<^verbatim>\<open>PanicLevel\<close> is 0, \<^verbatim>\<open>DebugLevel\<close> 5, \<^verbatim>\<open>TraceLevel\<close> 6.
  A line is emitted when the global level is at least the line's level.\<close>

definition DebugLevel :: nat where
  "DebugLevel = 5"

definition TraceLevel :: nat where
  "TraceLevel = 6"

definition logrus_GetLevel :: "'r world \<Rightarrow> nat" where
  "logrus_GetLevel w = level w"

definition logrus_Debug :: "Fields \<Rightarrow> string \<Rightarrow> 'r world \<Rightarrow> 'r world" where
  "logrus_Debug flds msg w =
     (if DebugLevel \<le> level w then w\<lparr>entries := entries w @ [(DebugLevel, flds, msg)]\<rparr> else w)"

definition logrus_Trace :: "Fields \<Rightarrow> string \<Rightarrow> 'r world \<Rightarrow> 'r world" where
  "logrus_Trace flds msg w =
     (if TraceLevel \<le> level w then w\<lparr>entries := entries w @ [(TraceLevel, flds, msg)]\<rparr> else w)"

section \<open>The client interface \<^verbatim>\<open>promclient.API\<close>\<close>

text \<open>Each operation returns the triple (value, warnings, error) and the world it leaves.\<close>

record 'r API =
  LabelNames :: "context \<Rightarrow> 'r world \<Rightarrow> (string list \<times> string list \<times> error option) \<times> 'r world"
  LabelValues :: "context \<Rightarrow> string \<Rightarrow> 'r world \<Rightarrow>
     (string list \<times> string list \<times> error option) \<times> 'r world"
  Query :: "context \<Rightarrow> string \<Rightarrow> time \<Rightarrow> 'r world \<Rightarrow>
     (Value_model option \<times> string list \<times> error option) \<times> 'r world"
  QueryRange :: "context \<Rightarrow> string \<Rightarrow> Range \<Rightarrow> 'r world \<Rightarrow>
     (Value_model option \<times> string list \<times> error option) \<times> 'r world"
  Series :: "context \<Rightarrow> string list \<Rightarrow> time \<Rightarrow> time \<Rightarrow> 'r world \<Rightarrow>
     (LabelSet list \<times> string list \<times> error option) \<times> 'r world"
  GetValue :: "context \<Rightarrow> time \<Rightarrow> time \<Rightarrow> Matcher list \<Rightarrow> 'r world \<Rightarrow>
     (Value_model option \<times> string list \<times> error option) \<times> 'r world"

section \<open>\<^verbatim>\<open>debug.go\<close>: the logging decorator\<close>

record 'r DebugAPI =
  API :: "'r API"
  PrefixMessage :: string

definition DebugAPI_LabelNames ::
  "'r DebugAPI \<Rightarrow> context \<Rightarrow> 'r world \<Rightarrow> (string list \<times> string list \<times> error option) \<times> 'r world"
where
  "DebugAPI_LabelNames d ctx w =
     (let flds = [''api'' \<mapsto> FString ''LabelNames''];
          w1 = logrus_Debug flds (PrefixMessage d) w;
          (s, w2) = time_Now w1;
          ((v, ws, err), w3) = LabelNames (API d) ctx w2;
          (n, w4) = time_Now w3;
          flds = flds(''took'' \<mapsto> FDuration (n - s))
      in if DebugLevel < logrus_GetLevel w4
         then (let flds = flds(''value'' \<mapsto> FStrings v, ''warnings'' \<mapsto> FWarnings ws,
                                   ''error'' \<mapsto> FError err)
               in ((v, ws, err), logrus_Trace flds (PrefixMessage d) w4))
         else ((v, ws, err), logrus_Debug flds (PrefixMessage d) w4))"

definition DebugAPI_LabelValues ::
  "'r DebugAPI \<Rightarrow> context \<Rightarrow> string \<Rightarrow> 'r world \<Rightarrow>
     (string list \<times> string list \<times> error option) \<times> 'r world"
where
  "DebugAPI_LabelValues d ctx label w =
     (let flds = [''api'' \<mapsto> FString ''LabelValues'', ''label'' \<mapsto> FString label];
          w1 = logrus_Debug flds (PrefixMessage d) w;
          (s, w2) = time_Now w1;
          ((v, ws, err), w3) = LabelValues (API d) ctx label w2;
          (n, w4) = time_Now w3;
          flds = flds(''took'' \<mapsto> FDuration (n - s))
      in if DebugLevel < logrus_GetLevel w4
         then (let flds = flds(''value'' \<mapsto> FStrings v, ''warnings'' \<mapsto> FWarnings ws,
                                   ''error'' \<mapsto> FError err)
               in ((v, ws, err), logrus_Trace flds (PrefixMessage d) w4))
         else ((v, ws, err), logrus_Debug flds (PrefixMessage d) w4))"

definition DebugAPI_Query ::
  "'r DebugAPI \<Rightarrow> context \<Rightarrow> string \<Rightarrow> time \<Rightarrow> 'r world \<Rightarrow>
     (Value_model option \<times> string list \<times> error option) \<times> 'r world"
where
  "DebugAPI_Query d ctx query ts w =
     (let flds = [''api'' \<mapsto> FString ''Query'', ''query'' \<mapsto> FString query, ''ts'' \<mapsto> FTime ts];
          w1 = logrus_Debug flds (PrefixMessage d) w;
          (s, w2) = time_Now w1;
          ((v, ws, err), w3) = Query (API d) ctx query ts w2;
          (n, w4) = time_Now w3;
          flds = flds(''took'' \<mapsto> FDuration (n - s))
      in if DebugLevel < logrus_GetLevel w4
         then (let flds = flds(''value'' \<mapsto> FValue v, ''warnings'' \<mapsto> FWarnings ws,
                                   ''error'' \<mapsto> FError err)
               in ((v, ws, err), logrus_Trace flds (PrefixMessage d) w4))
         else ((v, ws, err), logrus_Debug flds (PrefixMessage d) w4))"

definition DebugAPI_QueryRange ::
  "'r DebugAPI \<Rightarrow> context \<Rightarrow> string \<Rightarrow> Range \<Rightarrow> 'r world \<Rightarrow>
     (Value_model option \<times> string list \<times> error option) \<times> 'r world"
where
  "DebugAPI_QueryRange d ctx query r w =
     (let flds = [''api'' \<mapsto> FString ''QueryRange'', ''query'' \<mapsto> FString query, ''r'' \<mapsto> FRange r];
          w1 = logrus_Debug flds (PrefixMessage d) w;
          (s, w2) = time_Now w1;
          ((v, ws, err), w3) = QueryRange (API d) ctx query r w2;
          (n, w4) = time_Now w3;
          flds = flds(''took'' \<mapsto> FDuration (n - s))
      in if DebugLevel < logrus_GetLevel w4
         then (let flds = flds(''value'' \<mapsto> FValue v, ''warnings'' \<mapsto> FWarnings ws,
                                   ''error'' \<mapsto> FError err)
               in ((v, ws, err), logrus_Trace flds (PrefixMessage d) w4))
         else ((v, ws, err), logrus_Debug flds (PrefixMessage d) w4))"

definition DebugAPI_Series ::
  "'r DebugAPI \<Rightarrow> context \<Rightarrow> string list \<Rightarrow> time \<Rightarrow> time \<Rightarrow> 'r world \<Rightarrow>
     (LabelSet list \<times> string list \<times> error option) \<times> 'r world"
where
  "DebugAPI_Series d ctx matches startTime endTime w =
     (let flds = [''api'' \<mapsto> FString ''Series'', ''matches'' \<mapsto> FStrings matches,
                    ''startTime'' \<mapsto> FTime startTime, ''endTime'' \<mapsto> FTime endTime];
          w1 = logrus_Debug flds (PrefixMessage d) w;
          (s, w2) = time_Now w1;
          ((v, ws, err), w3) = Series (API d) ctx matches startTime endTime w2;
          (n, w4) = time_Now w3;
          flds = flds(''took'' \<mapsto> FDuration (n - s))
      in if DebugLevel < logrus_GetLevel w4
         then (let flds = flds(''value'' \<mapsto> FLabelSets v, ''warnings'' \<mapsto> FWarnings ws,
                                   ''error'' \<mapsto> FError err)
               in ((v, ws, err), logrus_Trace flds (PrefixMessage d) w4))
         else ((v, ws, err), logrus_Debug flds (PrefixMessage d) w4))"

definition DebugAPI_GetValue ::
  "'r DebugAPI \<Rightarrow> context \<Rightarrow> time \<Rightarrow> time \<Rightarrow> Matcher list \<Rightarrow> 'r world \<Rightarrow>
     (Value_model option \<times> string list \<times> error option) \<times> 'r world"
where
  "DebugAPI_GetValue d ctx start end matchers w =
     (let flds = [''api'' \<mapsto> FString ''GetValue'', ''start'' \<mapsto> FTime start,
                    ''end'' \<mapsto> FTime end, ''matchers'' \<mapsto> FMatchers matchers];
          w1 = logrus_Debug flds (PrefixMessage d) w;
          (s, w2) = time_Now w1;
          ((v, ws, err), w3) = GetValue (API d) ctx start end matchers w2;
          (n, w4) = time_Now w3;
          flds = flds(''took'' \<mapsto> FDuration (n - s))
      in if DebugLevel < logrus_GetLevel w4
         then (let flds = flds(''value'' \<mapsto> FValue v, ''warnings'' \<mapsto> FWarnings ws,
                                   ''error'' \<mapsto> FError err)
               in ((v, ws, err), logrus_Trace flds (PrefixMessage d) w4))
         else ((v, ws, err), logrus_Debug flds (PrefixMessage d) w4))"

text \<open>
  A client double for stating what a caller passes on: it answers every operation with a
  fixed triple and appends the call, with the arguments it received, to \<open>remote\<close>.
\<close>

datatype call =
    CallLabelNames "context"
  | CallLabelValues "context" string
  | CallQuery "context" string time
  | CallQueryRange "context" string Range
  | CallSeries "context" "string list" time time
  | CallGetValue "context" time time "Matcher list"

record responses =
  on_LabelNames :: "string list \<times> string list \<times> error option"
  on_LabelValues :: "string list \<times> string list \<times> error option"
  on_Query :: "Value_model option \<times> string list \<times> error option"
  on_QueryRange :: "Value_model option \<times> string list \<times> error option"
  on_Series :: "LabelSet list \<times> string list \<times> error option"
  on_GetValue :: "Value_model option \<times> string list \<times> error option"

definition record_call :: "call \<Rightarrow> call list world \<Rightarrow> call list world" where
  "record_call c w = w\<lparr>remote := remote w @ [c]\<rparr>"

definition recording_client :: "responses \<Rightarrow> call list API" where
  "recording_client rs =
     \<lparr>LabelNames = (\<lambda>ctx w. (on_LabelNames rs, record_call (CallLabelNames ctx) w)),
      LabelValues = (\<lambda>ctx label w. (on_LabelValues rs, record_call (CallLabelValues ctx label) w)),
      Query = (\<lambda>ctx query ts w. (on_Query rs, record_call (CallQuery ctx query ts) w)),
      QueryRange = (\<lambda>ctx query r w. (on_QueryRange rs, record_call (CallQueryRange ctx query r) w)),
      Series = (\<lambda>ctx matches s e w. (on_Series rs, record_call (CallSeries ctx matches s e) w)),
      GetValue = (\<lambda>ctx s e ms w. (on_GetValue rs, record_call (CallGetValue ctx s e ms) w))\<rparr>"

section \<open>Helpers of the repository and of libraries that \<^verbatim>\<open>querier.go\<close> calls\<close>

text \<open>
  Modelled from the spec: \<^verbatim>\<open>errors.Cause\<close> (github.com/pkg/errors) is not under src/.
  The spec's ErrorBridge "extracts and forwards only the innermost root cause;
  intermediate wrapping context is discarded".
\<close>

fun errors_Cause :: "error \<Rightarrow> error" where
  "errors_Cause (Fundamental s) = Fundamental s"
| "errors_Cause (WithMessage e m) = errors_Cause e"
| "errors_Cause (WithStack e) = errors_Cause e"

text \<open>
  Modelled from the spec: \<^verbatim>\<open>timestamp.Time\<close> (prometheus/pkg/timestamp) is not under src/.
  The spec has the request's own start and end reach the data call, so the conversion of
  an \<^verbatim>\<open>int64\<close> count of milliseconds to a \<^verbatim>\<open>time.Time\<close> keeps the instant.
\<close>

definition timestamp_Time :: "64 word \<Rightarrow> time" where
  "timestamp_Time t = sint t * 1000000"

text \<open>
  Modelled from the spec: \<^verbatim>\<open>promutil.WarningsConvert\<close> is not under src/. The spec's
  WarningsBridge "maps each remote warning to the engine's warning representation
  element-wise". A remote warning is a string (\<^verbatim>\<open>api.Warnings\<close>), an engine warning an error
  (\<^verbatim>\<open>storage.Warnings\<close>): the error made of that string.
\<close>

definition errors_New :: "string \<Rightarrow> error" where
  "errors_New s = Fundamental s"

primrec WarningsConvert :: "string list \<Rightarrow> error list" where
  "WarningsConvert [] = []"
| "WarningsConvert (item # ws) = errors_New item # WarningsConvert ws"

text \<open>
  Modelled from the spec: \<^verbatim>\<open>promclient.SeriesIterator\<close> and \<^verbatim>\<open>promclient.IteratorsForValue\<close>
  are not under src/. The spec's ResultAdapter: "Vector: one Series per Sample; iterator
  yields the single point, except the metadata-path sentinel case, where the iterator is
  empty. Matrix: one Series per SampleStream; iterator replays its points in original
  order. Scalar / String: fails with an unsupported-shape error", with "a default branch
  that fails" for any other shape, which is where the nil value falls. The sentinel is the
  sample the metadata path of \<^verbatim>\<open>Select\<close> builds: only \<^verbatim>\<open>Metric\<close> set, timestamp and value
  zero. \<^verbatim>\<open>IteratorsForValue\<close> returns a single value in \<^verbatim>\<open>querier.go\<close>, so its failure is a
  panic, not a returned error.
\<close>

record SeriesIterator =
  it_Labels :: LabelSet
  it_Points :: "SamplePair list"

definition iterator_Next :: "SeriesIterator \<Rightarrow> (SamplePair \<times> SeriesIterator) option" where
  "iterator_Next it =
     (case it_Points it of [] \<Rightarrow> None | p # ps \<Rightarrow> Some (p, it\<lparr>it_Points := ps\<rparr>))"

definition is_sentinel :: "Sample \<Rightarrow> bool" where
  "is_sentinel s \<longleftrightarrow> Timestamp s = 0 \<and> Value s = 0"

definition iterator_of_sample :: "Sample \<Rightarrow> SeriesIterator" where
  "iterator_of_sample s =
     \<lparr>it_Labels = Metric s,
      it_Points = (if is_sentinel s then [] else [SamplePair (Timestamp s) (Value s)])\<rparr>"

definition iterator_of_stream :: "SampleStream \<Rightarrow> SeriesIterator" where
  "iterator_of_stream ss = \<lparr>it_Labels = ssMetric ss, it_Points = ssValues ss\<rparr>"

datatype panic = UnsupportedShape

fun IteratorsForValue :: "Value_model option \<Rightarrow> panic + SeriesIterator list" where
  "IteratorsForValue (Some (Vector v)) = Inr (map iterator_of_sample v)"
| "IteratorsForValue (Some (Matrix m)) = Inr (map iterator_of_stream m)"
| "IteratorsForValue _ = Inl UnsupportedShape"

text \<open>
  Modelled from the spec: the types \<^verbatim>\<open>Series\<close> and \<^verbatim>\<open>SeriesSet\<close> of package proxyquerier and
  \<^verbatim>\<open>NewSeriesSet\<close> are not under src/. \<^verbatim>\<open>querier.go\<close> builds a Series from one iterator; the
  spec's Series carries the LabelSet of its iterator, and its SeriesSet is an "ordered
  collection of Series".
\<close>

datatype Series_proxy = Series_proxy (iterator: SeriesIterator)

definition Series_Labels :: "Series_proxy \<Rightarrow> LabelSet" where
  "Series_Labels s = it_Labels (iterator s)"

datatype SeriesSet = NewSeriesSet (series: "Series_proxy list")

section \<open>\<^verbatim>\<open>querier.go\<close>: the querier\<close>

typedecl PromxyConfig

record 'r ProxyQuerier =
  Ctx :: "context"
  Start :: time
  End :: time
  Client :: "'r API"
  Cfg :: "PromxyConfig option"

text \<open>The deferred closures: each runs when its method exits, on every path.\<close>

definition Select_deferred ::
  "time \<Rightarrow> SelectParams option \<Rightarrow> Matcher list \<Rightarrow> 'r world \<Rightarrow> 'r world" where
  "Select_deferred start selectParams matchers w =
     (let (n, w1) = time_Now w
      in logrus_Debug [''selectParams'' \<mapsto> FSelectParams selectParams,
                       ''matchers'' \<mapsto> FMatchers matchers,
                       ''took'' \<mapsto> FDuration (n - start)] ''Select'' w1)"

definition LabelValues_deferred :: "time \<Rightarrow> string \<Rightarrow> 'r world \<Rightarrow> 'r world" where
  "LabelValues_deferred start name w =
     (let (n, w1) = time_Now w
      in logrus_Debug [''name'' \<mapsto> FString name, ''took'' \<mapsto> FDuration (n - start)]
           ''LabelValues'' w1)"

definition LabelNames_deferred :: "time \<Rightarrow> 'r world \<Rightarrow> 'r world" where
  "LabelNames_deferred start w =
     (let (n, w1) = time_Now w
      in logrus_Debug [''took'' \<mapsto> FDuration (n - start)] ''LabelNames'' w1)"

text \<open>Lines 62 to 67 of \<^verbatim>\<open>Select\<close>: one sample per discovered labelset, only \<^verbatim>\<open>Metric\<close> given,
  so the other fields of the struct literal are the zero value.\<close>

primrec retVector :: "LabelSet list \<Rightarrow> Sample list" where
  "retVector [] = []"
| "retVector (labelset # labelsets) =
     \<lparr>Metric = labelset, Value = 0, Timestamp = 0\<rparr> # retVector labelsets"

type_synonym Select_result = "panic + (SeriesSet option \<times> error list \<times> error option)"

text \<open>Lines 74 to 85 of \<^verbatim>\<open>Select\<close>, which both paths reach: \<open>err\<close> is the outer variable.\<close>

definition Select_tail ::
  "Value_model option \<Rightarrow> error list \<Rightarrow> error option \<Rightarrow> time \<Rightarrow> SelectParams option \<Rightarrow>
     Matcher list \<Rightarrow> 'r world \<Rightarrow> Select_result \<times> 'r world" where
  "Select_tail result warnings err start selectParams matchers w =
     (case err of
        Some e \<Rightarrow>
          (Inr (None, warnings, Some (errors_Cause e)),
           Select_deferred start selectParams matchers w)
      | None \<Rightarrow>
          (case IteratorsForValue result of
             Inl p \<Rightarrow> (Inl p, Select_deferred start selectParams matchers w)
           | Inr iterators \<Rightarrow>
               (Inr (Some (NewSeriesSet (map Series_proxy iterators)), warnings, None),
                Select_deferred start selectParams matchers w)))"

text \<open>
  \<^verbatim>\<open>Select\<close>. \<^verbatim>\<open>promutil.MatcherToString\<close> is not under src/ and is a parameter: any
  translation of a matcher list to a selector string or an error. On the metadata path
  the \<open>err\<close> of \<^verbatim>\<open>Series\<close> is the inner variable declared with \<^verbatim>\<open>matcherString\<close>; the outer
  \<open>err\<close> that line 74 tests is still nil there.
\<close>

definition ProxyQuerier_Select ::
  "(Matcher list \<Rightarrow> error + string) \<Rightarrow> 'r ProxyQuerier \<Rightarrow> SelectParams option \<Rightarrow>
     Matcher list \<Rightarrow> 'r world \<Rightarrow> Select_result \<times> 'r world" where
  "ProxyQuerier_Select MatcherToString h selectParams matchers w =
     (let (start, w0) = time_Now w
      in case selectParams of
           None \<Rightarrow>
             (case MatcherToString matchers of
                Inl err \<Rightarrow>
                  (Inr (None, [], Some err), Select_deferred start selectParams matchers w0)
              | Inr matcherString \<Rightarrow>
                  (let ((labelsets, ws, err), w1) =
                         Series (Client h) (Ctx h) [matcherString] (Start h) (End h) w0;
                       warnings = WarningsConvert ws
                   in case err of
                        Some e \<Rightarrow>
                          (Inr (None, warnings, Some (errors_Cause e)),
                           Select_deferred start selectParams matchers w1)
                      | None \<Rightarrow>
                          Select_tail (Some (Vector (retVector labelsets))) warnings None
                            start selectParams matchers w1))
         | Some sp \<Rightarrow>
             (let ((result, ws, err), w1) =
                    GetValue (Client h) (Ctx h) (timestamp_Time (sp_Start sp))
                      (timestamp_Time (sp_End sp)) matchers w0
              in Select_tail result (WarningsConvert ws) err start selectParams matchers w1))"

definition ProxyQuerier_LabelValues ::
  "'r ProxyQuerier \<Rightarrow> string \<Rightarrow> 'r world \<Rightarrow>
     (string list \<times> error list \<times> error option) \<times> 'r world" where
  "ProxyQuerier_LabelValues h name w =
     (let (start, w0) = time_Now w;
          ((result, ws, err), w1) = LabelValues (Client h) (Ctx h) name w0;
          warnings = WarningsConvert ws
      in case err of
           Some e \<Rightarrow> (([], warnings, Some (errors_Cause e)), LabelValues_deferred start name w1)
         | None \<Rightarrow> ((map (\<lambda>r. r) result, warnings, None), LabelValues_deferred start name w1))"

definition ProxyQuerier_LabelNames ::
  "'r ProxyQuerier \<Rightarrow> 'r world \<Rightarrow> (string list \<times> error list \<times> error option) \<times> 'r world" where
  "ProxyQuerier_LabelNames h w =
     (let (start, w0) = time_Now w;
          ((v, ws, err), w1) = LabelNames (Client h) (Ctx h) w0
      in ((v, WarningsConvert ws, err), LabelNames_deferred start w1))"

definition ProxyQuerier_Close :: "'r ProxyQuerier \<Rightarrow> error option" where
  "ProxyQuerier_Close h = None"

section \<open>Notions and test data for the statements\<close>

text \<open>
  \<open>forwards outer inner\<close>: from every world, \<open>outer\<close> returns what \<open>inner\<close> returns when
  run in a world that differs from the caller's in the log and the clock readings only,
  and leaves the remote state as that run of \<open>inner\<close> leaves it.
\<close>

definition forwards ::
  "('r world \<Rightarrow> 'a \<times> 'r world) \<Rightarrow> ('r world \<Rightarrow> 'a \<times> 'r world) \<Rightarrow> bool" where
  "forwards outer inner \<longleftrightarrow>
     (\<forall>w. \<exists>es k. let w1 = w\<lparr>entries := es, reads := k\<rparr>
        in fst (outer w) = fst (inner w1) \<and> remote (snd (outer w)) = remote (snd (inner w1)))"

text \<open>A world at trace level with nothing logged or called yet, answers without warnings
  or errors, and a querier over the recording client with the window 5 to 9.\<close>

definition world0 :: "call list world" where
  "world0 = \<lparr>remote = [], level = 6, entries = [], clock = (\<lambda>n. 1000 * int n), reads = 0\<rparr>"

definition silent :: responses where
  "silent = \<lparr>on_LabelNames = ([], [], None), on_LabelValues = ([], [], None),
     on_Query = (None, [], None), on_QueryRange = (None, [], None),
     on_Series = ([], [], None), on_GetValue = (Some (Matrix []), [], None)\<rparr>"

definition querier0 :: "responses \<Rightarrow> call list ProxyQuerier" where
  "querier0 rs = \<lparr>Ctx = Context 0, Start = 5, End = 9, Client = recording_client rs, Cfg = None\<rparr>"

text \<open>The selector list a recorded \<^verbatim>\<open>Series\<close> call received (empty for any other call).\<close>

definition call_matches :: "call \<Rightarrow> string list" where
  "call_matches c = (case c of CallSeries ctx matches s e \<Rightarrow> matches | _ \<Rightarrow> [])"

text \<open>The two labelsets of the discovery scenario.\<close>

definition api_a :: LabelSet where
  "api_a = [''job'' \<mapsto> ''api'', ''instance'' \<mapsto> ''a'']"

definition api_b :: LabelSet where
  "api_b = [''job'' \<mapsto> ''api'', ''instance'' \<mapsto> ''b'']"

section \<open>The decorator is transparent\<close>

text \<open>The logger and the clock leave the remote state alone.\<close>

lemma remote_logrus_Debug: "remote (logrus_Debug f m w) = remote w"
  by (simp add: logrus_Debug_def)

lemma remote_logrus_Trace: "remote (logrus_Trace f m w) = remote w"
  by (simp add: logrus_Trace_def)

lemma remote_time_Now: "remote (snd (time_Now w)) = remote w"
  by (simp add: time_Now_def)

lemma world_after_prefix:
  "snd (time_Now (logrus_Debug f m w)) =
     w\<lparr>entries := entries (logrus_Debug f m w), reads := Suc (reads w)\<rparr>"
  by (simp add: time_Now_def logrus_Debug_def)

lemma forwardsI:
  assumes "\<And>w. fst (outer w) = fst (inner (snd (time_Now (logrus_Debug f m w))))"
    and "\<And>w. remote (snd (outer w)) = remote (snd (inner (snd (time_Now (logrus_Debug f m w)))))"
  shows "forwards outer inner"
  unfolding forwards_def Let_def
proof
  fix w
  show "\<exists>es k. fst (outer w) = fst (inner (w\<lparr>entries := es, reads := k\<rparr>)) \<and>
     remote (snd (outer w)) = remote (snd (inner (w\<lparr>entries := es, reads := k\<rparr>)))"
    using assms[of w] world_after_prefix[of f m w] by metis
qed

lemmas remote_simps = remote_logrus_Debug remote_logrus_Trace remote_time_Now

lemma DebugAPI_LabelNames_forward:
  "forwards (DebugAPI_LabelNames d ctx) (LabelNames (API d) ctx)"
  by (rule forwardsI[where f = "[''api'' \<mapsto> FString ''LabelNames'']" and m = "PrefixMessage d"])
     (simp_all add: DebugAPI_LabelNames_def Let_def case_prod_beta remote_simps)

lemma DebugAPI_LabelValues_forward:
  "forwards (DebugAPI_LabelValues d ctx label) (LabelValues (API d) ctx label)"
  by (rule forwardsI[where f = "[''api'' \<mapsto> FString ''LabelValues'', ''label'' \<mapsto> FString label]"
        and m = "PrefixMessage d"])
     (simp_all add: DebugAPI_LabelValues_def Let_def case_prod_beta remote_simps)

lemma DebugAPI_Query_forward:
  "forwards (DebugAPI_Query d ctx query ts) (Query (API d) ctx query ts)"
  by (rule forwardsI[where f = "[''api'' \<mapsto> FString ''Query'', ''query'' \<mapsto> FString query,
          ''ts'' \<mapsto> FTime ts]" and m = "PrefixMessage d"])
     (simp_all add: DebugAPI_Query_def Let_def case_prod_beta remote_simps)

lemma DebugAPI_QueryRange_forward:
  "forwards (DebugAPI_QueryRange d ctx query r) (QueryRange (API d) ctx query r)"
  by (rule forwardsI[where f = "[''api'' \<mapsto> FString ''QueryRange'', ''query'' \<mapsto> FString query,
          ''r'' \<mapsto> FRange r]" and m = "PrefixMessage d"])
     (simp_all add: DebugAPI_QueryRange_def Let_def case_prod_beta remote_simps)

lemma DebugAPI_Series_forward:
  "forwards (DebugAPI_Series d ctx matches s e) (Series (API d) ctx matches s e)"
  by (rule forwardsI[where f = "[''api'' \<mapsto> FString ''Series'', ''matches'' \<mapsto> FStrings matches,
          ''startTime'' \<mapsto> FTime s, ''endTime'' \<mapsto> FTime e]" and m = "PrefixMessage d"])
     (simp_all add: DebugAPI_Series_def Let_def case_prod_beta remote_simps)

lemma DebugAPI_GetValue_forward:
  "forwards (DebugAPI_GetValue d ctx s e ms) (GetValue (API d) ctx s e ms)"
  by (rule forwardsI[where f = "[''api'' \<mapsto> FString ''GetValue'', ''start'' \<mapsto> FTime s,
          ''end'' \<mapsto> FTime e, ''matchers'' \<mapsto> FMatchers ms]" and m = "PrefixMessage d"])
     (simp_all add: DebugAPI_GetValue_def Let_def case_prod_beta remote_simps)

lemma remote_record_call: "remote (record_call c w) = remote w @ [c]"
  by (simp add: record_call_def)

lemma DebugAPI_recorded_calls:
  "remote (snd (DebugAPI_LabelNames \<lparr>API = recording_client rs, PrefixMessage = p\<rparr> ctx w)) =
     remote w @ [CallLabelNames ctx]"
  "remote (snd (DebugAPI_LabelValues \<lparr>API = recording_client rs, PrefixMessage = p\<rparr> ctx label w)) =
     remote w @ [CallLabelValues ctx label]"
  "remote (snd (DebugAPI_Query \<lparr>API = recording_client rs, PrefixMessage = p\<rparr> ctx query ts w)) =
     remote w @ [CallQuery ctx query ts]"
  "remote (snd (DebugAPI_QueryRange \<lparr>API = recording_client rs, PrefixMessage = p\<rparr> ctx query r w)) =
     remote w @ [CallQueryRange ctx query r]"
  "remote (snd (DebugAPI_Series \<lparr>API = recording_client rs, PrefixMessage = p\<rparr> ctx matches s e w)) =
     remote w @ [CallSeries ctx matches s e]"
  "remote (snd (DebugAPI_GetValue \<lparr>API = recording_client rs, PrefixMessage = p\<rparr> ctx s e ms w)) =
     remote w @ [CallGetValue ctx s e ms]"
  by (simp_all add: DebugAPI_LabelNames_def DebugAPI_LabelValues_def DebugAPI_Query_def
      DebugAPI_QueryRange_def DebugAPI_Series_def DebugAPI_GetValue_def recording_client_def
      Let_def case_prod_beta remote_simps remote_record_call)

text \<open>
  C7. Every operation of the decorator hands its arguments unchanged to the wrapped API
  and returns exactly the triple (value, warnings, error) the wrapped API returned,
  whatever the log level; it touches the log and the clock only. Over the recording
  client, the wrapped API receives exactly one call, with the caller's arguments.
\<close>

theorem DebugAPI_transparent:
  "forwards (DebugAPI_LabelNames d ctx) (LabelNames (API d) ctx) \<and>
   forwards (DebugAPI_LabelValues d ctx label) (LabelValues (API d) ctx label) \<and>
   forwards (DebugAPI_Query d ctx query ts) (Query (API d) ctx query ts) \<and>
   forwards (DebugAPI_QueryRange d ctx query r) (QueryRange (API d) ctx query r) \<and>
   forwards (DebugAPI_Series d ctx matches startTime endTime)
     (Series (API d) ctx matches startTime endTime) \<and>
   forwards (DebugAPI_GetValue d ctx start end matchers)
     (GetValue (API d) ctx start end matchers) \<and>
   remote (snd (DebugAPI_LabelNames \<lparr>API = recording_client rs, PrefixMessage = p\<rparr> ctx w)) =
     remote w @ [CallLabelNames ctx] \<and>
   remote (snd (DebugAPI_LabelValues \<lparr>API = recording_client rs, PrefixMessage = p\<rparr> ctx label w)) =
     remote w @ [CallLabelValues ctx label] \<and>
   remote (snd (DebugAPI_Query \<lparr>API = recording_client rs, PrefixMessage = p\<rparr> ctx query ts w)) =
     remote w @ [CallQuery ctx query ts] \<and>
   remote (snd (DebugAPI_QueryRange \<lparr>API = recording_client rs, PrefixMessage = p\<rparr> ctx query r w)) =
     remote w @ [CallQueryRange ctx query r] \<and>
   remote (snd (DebugAPI_Series \<lparr>API = recording_client rs, PrefixMessage = p\<rparr> ctx matches
       startTime endTime w)) = remote w @ [CallSeries ctx matches startTime endTime] \<and>
   remote (snd (DebugAPI_GetValue \<lparr>API = recording_client rs, PrefixMessage = p\<rparr> ctx start end
       matchers w)) = remote w @ [CallGetValue ctx start end matchers]"
  by (intro conjI DebugAPI_LabelNames_forward DebugAPI_LabelValues_forward DebugAPI_Query_forward
      DebugAPI_QueryRange_forward DebugAPI_Series_forward DebugAPI_GetValue_forward
      DebugAPI_recorded_calls)

section \<open>The querier\<close>

lemma remote_Select_deferred: "remote (Select_deferred start sp ms w) = remote w"
  by (simp add: Select_deferred_def case_prod_beta remote_simps)

lemma remote_Select_tail: "remote (snd (Select_tail r ws err start sp ms w)) = remote w"
  by (simp add: Select_tail_def remote_Select_deferred split: option.splits sum.splits)

lemma fst_time_Now: "fst (time_Now w) = clock w (reads w)"
  by (simp add: time_Now_def)

lemma Select_data_path:
  "ProxyQuerier_Select mts h (Some sp) ms w =
     (let r = GetValue (Client h) (Ctx h) (timestamp_Time (sp_Start sp))
                (timestamp_Time (sp_End sp)) ms (snd (time_Now w))
      in Select_tail (fst (fst r)) (WarningsConvert (fst (snd (fst r)))) (snd (snd (fst r)))
           (clock w (reads w)) (Some sp) ms (snd r))"
  by (simp add: ProxyQuerier_Select_def Let_def case_prod_beta fst_time_Now)

lemma Select_metadata_path:
  assumes "mts ms = Inr sel"
  shows "ProxyQuerier_Select mts h None ms w =
     (let r = Series (Client h) (Ctx h) [sel] (Start h) (End h) (snd (time_Now w))
      in case snd (snd (fst r)) of
           Some e \<Rightarrow> (Inr (None, WarningsConvert (fst (snd (fst r))), Some (errors_Cause e)),
                      Select_deferred (clock w (reads w)) None ms (snd r))
         | None \<Rightarrow> Select_tail (Some (Vector (retVector (fst (fst r)))))
                     (WarningsConvert (fst (snd (fst r)))) None (clock w (reads w)) None ms (snd r))"
  using assms
  by (simp add: ProxyQuerier_Select_def Let_def case_prod_beta fst_time_Now split: option.splits)

lemma Select_translation_failure:
  assumes "mts ms = Inl err"
  shows "ProxyQuerier_Select mts h None ms w =
     (Inr (None, [], Some err), Select_deferred (clock w (reads w)) None ms (snd (time_Now w)))"
  using assms by (simp add: ProxyQuerier_Select_def Let_def case_prod_beta fst_time_Now)

lemma recording_client_simps:
  "Series (recording_client rs) ctx matches s e w = (on_Series rs, record_call (CallSeries ctx matches s e) w)"
  "GetValue (recording_client rs) ctx s e ms w = (on_GetValue rs, record_call (CallGetValue ctx s e ms) w)"
  "LabelNames (recording_client rs) ctx w = (on_LabelNames rs, record_call (CallLabelNames ctx) w)"
  "LabelValues (recording_client rs) ctx label w =
     (on_LabelValues rs, record_call (CallLabelValues ctx label) w)"
  by (simp_all add: recording_client_def)

lemma querier0_simps:
  "Client (querier0 rs) = recording_client rs" "Ctx (querier0 rs) = Context 0"
  "Start (querier0 rs) = 5" "End (querier0 rs) = 9"
  by (simp_all add: querier0_def)

lemma remote_world0: "remote world0 = []"
  by (simp add: world0_def)

text \<open>
  C1. A \<^verbatim>\<open>Select\<close> with a present request makes exactly one client call,
  \<^verbatim>\<open>GetValue\<close>, whose start and end are the request's own start and end (as instants:
  their millisecond counts are the request's numbers); the querier's window
  \<open>Start\<close>, \<open>End\<close> has no influence on the call or on the result. A querier with the
  window 5 to 9 asked for 100 to 200 milliseconds calls \<^verbatim>\<open>GetValue\<close> with those two instants.
\<close>

theorem Select_data_path_bounds:
  "remote (snd (ProxyQuerier_Select mts (h\<lparr>Client := recording_client rs\<rparr>) (Some sp) ms w)) =
     remote w @ [CallGetValue (Ctx h) (timestamp_Time (sp_Start sp)) (timestamp_Time (sp_End sp)) ms] \<and>
   ProxyQuerier_Select mts (g\<lparr>Start := a, End := b\<rparr>) (Some sp) ms v =
     ProxyQuerier_Select mts g (Some sp) ms v \<and>
   timestamp_Time (sp_Start sp) div 1000000 = sint (sp_Start sp) \<and>
   timestamp_Time (sp_End sp) div 1000000 = sint (sp_End sp) \<and>
   remote (snd (ProxyQuerier_Select mts (querier0 silent) (Some \<lparr>sp_Start = 100, sp_End = 200\<rparr>)
       [Matcher MatchEqual ''job'' ''api''] world0)) =
     [CallGetValue (Context 0) 100000000 200000000 [Matcher MatchEqual ''job'' ''api'']]"
  by (simp add: Select_data_path Let_def remote_Select_tail recording_client_simps
      remote_record_call remote_simps timestamp_Time_def querier0_simps remote_world0)

text \<open>
  C2. A \<^verbatim>\<open>Select\<close> with no request makes, when the matchers translate, exactly one
  client call, \<^verbatim>\<open>Series\<close>, whose start and end are the querier's own \<open>Start\<close> and \<open>End\<close>;
  when they do not translate it makes no call.
\<close>

theorem Select_metadata_path_window:
  "remote (snd (ProxyQuerier_Select mts (h\<lparr>Client := recording_client rs\<rparr>) None ms w)) =
     remote w @ (case mts ms of Inl e \<Rightarrow> []
                 | Inr sel \<Rightarrow> [CallSeries (Ctx h) [sel] (Start h) (End h)])"
proof (cases "mts ms")
  case (Inl e)
  then show ?thesis
    by (simp add: Select_translation_failure remote_Select_deferred remote_simps)
next
  case (Inr sel)
  then show ?thesis
    by (simp add: Select_metadata_path Let_def remote_Select_tail remote_Select_deferred
        recording_client_simps remote_record_call remote_simps split: option.splits)
qed

lemma length_WarningsConvert: "length (WarningsConvert ws) = length ws"
  by (induction ws) simp_all

lemma nth_WarningsConvert: "i < length ws \<Longrightarrow> WarningsConvert ws ! i = errors_New (ws ! i)"
proof (induction ws arbitrary: i)
  case Nil
  then show ?case by simp
next
  case (Cons item ws)
  then show ?case by (cases i) simp_all
qed

lemma fst_Select_tail_error:
  "fst (Select_tail r ws (Some e) start sp ms w) = Inr (None, ws, Some (errors_Cause e))"
  by (simp add: Select_tail_def)

text \<open>
  C3. When the remote call of \<^verbatim>\<open>Select\<close> (\<^verbatim>\<open>Series\<close> on the metadata path, \<^verbatim>\<open>GetValue\<close> on
  the data path) returns an error together with warnings, \<^verbatim>\<open>Select\<close> returns the converted
  warnings alongside the error (and no series set): the warnings are not dropped.
\<close>

theorem Select_error_keeps_warnings:
  "(mts ms = Inr sel \<longrightarrow>
      Series (Client h) (Ctx h) [sel] (Start h) (End h) (snd (time_Now w)) = ((ls, ws, Some e), wa) \<longrightarrow>
      fst (ProxyQuerier_Select mts h None ms w) =
        Inr (None, WarningsConvert ws, Some (errors_Cause e))) \<and>
   (GetValue (Client h) (Ctx h) (timestamp_Time (sp_Start sp)) (timestamp_Time (sp_End sp)) ms
        (snd (time_Now w)) = ((v, ws, Some e), wa) \<longrightarrow>
      fst (ProxyQuerier_Select mts h (Some sp) ms w) =
        Inr (None, WarningsConvert ws, Some (errors_Cause e)))"
  by (simp add: Select_metadata_path Select_data_path Let_def fst_Select_tail_error)

theorem Select_error_keeps_warnings_witness:
  "fst (ProxyQuerier_Select (\<lambda>ms. Inr ''sel'')
         (querier0 (silent\<lparr>on_Series := ([], [''partial'', ''slow''],
            Some (WithMessage (Fundamental ''down'') ''series''))\<rparr>)) None [] world0) =
     Inr (None, [Fundamental ''partial'', Fundamental ''slow''], Some (Fundamental ''down'')) \<and>
   fst (ProxyQuerier_Select (\<lambda>ms. Inr ''sel'')
         (querier0 (silent\<lparr>on_GetValue := (None, [''partial'', ''slow''],
            Some (WithMessage (Fundamental ''down'') ''value''))\<rparr>))
         (Some \<lparr>sp_Start = 100, sp_End = 200\<rparr>) [] world0) =
     Inr (None, [Fundamental ''partial'', Fundamental ''slow''], Some (Fundamental ''down''))"
  using Select_error_keeps_warnings [where mts = "\<lambda>ms. Inr ''sel''" and ms = "[]" and sel = "''sel''"
      and h = "querier0 (silent\<lparr>on_Series := ([], [''partial'', ''slow''],
            Some (WithMessage (Fundamental ''down'') ''series''))\<rparr>)"
      and w = world0 and ls = "[]" and ws = "[''partial'', ''slow'']"
      and e = "WithMessage (Fundamental ''down'') ''series''"
      and wa = "record_call (CallSeries (Context 0) [''sel''] 5 9) (snd (time_Now world0))"]
    Select_error_keeps_warnings [where mts = "\<lambda>ms. Inr ''sel''" and ms = "[]"
      and h = "querier0 (silent\<lparr>on_GetValue := (None, [''partial'', ''slow''],
            Some (WithMessage (Fundamental ''down'') ''value''))\<rparr>)"
      and sp = "\<lparr>sp_Start = 100, sp_End = 200\<rparr>"
      and w = world0 and v = None and ws = "[''partial'', ''slow'']"
      and e = "WithMessage (Fundamental ''down'') ''value''"
      and wa = "record_call (CallGetValue (Context 0) (timestamp_Time 100) (timestamp_Time 200) [])
                  (snd (time_Now world0))"]
  by (simp add: querier0_def recording_client_simps errors_New_def)

lemma Select_returns_root_cause:
  "fst (ProxyQuerier_Select mts (querier0 (silent\<lparr>on_GetValue := (v, ws, Some e)\<rparr>)) (Some sp) ms w) =
     Inr (None, WarningsConvert ws, Some (errors_Cause e))"
  "fst (ProxyQuerier_Select (\<lambda>ms. Inr sel) (querier0 (silent\<lparr>on_Series := (ls, ws, Some e)\<rparr>)) None ms w) =
     Inr (None, WarningsConvert ws, Some (errors_Cause e))"
  by (simp_all add: Select_data_path Select_metadata_path Let_def querier0_def
      recording_client_simps fst_Select_tail_error)

lemma LabelValues_returns_root_cause:
  "fst (ProxyQuerier_LabelValues (querier0 (silent\<lparr>on_LabelValues := (v, ws, Some e)\<rparr>)) name w) =
     ([], WarningsConvert ws, Some (errors_Cause e))"
  by (simp add: ProxyQuerier_LabelValues_def Let_def case_prod_beta querier0_def
      recording_client_simps)

lemma LabelNames_returns_error_as_is:
  "fst (ProxyQuerier_LabelNames h w) =
     (let r = fst (LabelNames (Client h) (Ctx h) (snd (time_Now w)))
      in (fst r, WarningsConvert (fst (snd r)), snd (snd r)))"
  by (simp add: ProxyQuerier_LabelNames_def Let_def case_prod_beta)

text \<open>
  C4. The specification has every exposed operation return the innermost root cause of a
  wrapped client error. \<^verbatim>\<open>Select\<close> and \<^verbatim>\<open>LabelValues\<close> pass the error through
  \<^verbatim>\<open>errors.Cause\<close>; \<^verbatim>\<open>LabelNames\<close> returns it as the client gave it. Evaluated on a doubly wrapped error with
  root cause \<open>E\<close>: \<^verbatim>\<open>LabelNames\<close> returns the wrapped error, which is not \<open>E\<close>, where
  \<^verbatim>\<open>LabelValues\<close> returns \<open>E\<close>.
\<close>

theorem LabelNames_keeps_wrapping:
  "fst (ProxyQuerier_LabelNames
         (querier0 (silent\<lparr>on_LabelNames := ([], [],
            Some (WithStack (WithMessage (Fundamental ''E'') ''fetching label names'')))\<rparr>)) world0) =
     ([], [], Some (WithStack (WithMessage (Fundamental ''E'') ''fetching label names''))) \<and>
   errors_Cause (WithStack (WithMessage (Fundamental ''E'') ''fetching label names'')) =
     Fundamental ''E'' \<and>
   WithStack (WithMessage (Fundamental ''E'') ''fetching label names'') \<noteq> Fundamental ''E'' \<and>
   fst (ProxyQuerier_LabelValues
         (querier0 (silent\<lparr>on_LabelValues := ([], [],
            Some (WithStack (WithMessage (Fundamental ''E'') ''fetching label values'')))\<rparr>))
         ''job'' world0) =
     ([], [], Some (Fundamental ''E''))"
  by (simp add: LabelNames_returns_error_as_is LabelValues_returns_root_cause Let_def
      querier0_simps recording_client_simps)

lemma fst_Select_tail_ok:
  "IteratorsForValue r = Inr its \<Longrightarrow>
     fst (Select_tail r ws None start sp ms w) =
       Inr (Some (NewSeriesSet (map Series_proxy its)), ws, None)"
  by (simp add: Select_tail_def)

lemma map_iterator_of_sample_retVector:
  "map iterator_of_sample (retVector ls) = map (\<lambda>l. \<lparr>it_Labels = l, it_Points = []\<rparr>) ls"
  by (induction ls) (simp_all add: iterator_of_sample_def is_sentinel_def)

text \<open>
  C5. When a \<^verbatim>\<open>Select\<close> with no request succeeds, the series set holds one series per
  discovered labelset, in the order of discovery, each with that labelset, and every
  iterator is empty: it has no point and advancing it yields nothing.
\<close>

theorem Select_metadata_series:
  assumes "mts ms = Inr sel"
    and "Series (Client h) (Ctx h) [sel] (Start h) (End h) (snd (time_Now w)) = ((ls, ws, None), wa)"
  shows "\<exists>ss. fst (ProxyQuerier_Select mts h None ms w) = Inr (Some ss, WarningsConvert ws, None) \<and>
     length (series ss) = length ls \<and>
     map Series_Labels (series ss) = ls \<and>
     (\<forall>s \<in> set (series ss). it_Points (iterator s) = [] \<and> iterator_Next (iterator s) = None)"
proof -
  let ?its = "map (\<lambda>l. \<lparr>it_Labels = l, it_Points = []\<rparr>) ls"
  let ?ss = "NewSeriesSet (map Series_proxy ?its)"
  have "IteratorsForValue (Some (Vector (retVector ls))) = Inr ?its"
    by (simp add: map_iterator_of_sample_retVector)
  then have "fst (ProxyQuerier_Select mts h None ms w) = Inr (Some ?ss, WarningsConvert ws, None)"
    using assms by (simp add: Select_metadata_path Let_def fst_Select_tail_ok)
  moreover have "length (series ?ss) = length ls"
    by simp
  moreover have "map Series_Labels (series ?ss) = ls"
    by (simp add: comp_def Series_Labels_def)
  moreover have "\<forall>s \<in> set (series ?ss). it_Points (iterator s) = [] \<and> iterator_Next (iterator s) = None"
    by (auto simp: iterator_Next_def)
  ultimately show ?thesis
    by blast
qed

theorem Select_metadata_series_witness:
  "\<exists>ss. fst (ProxyQuerier_Select (\<lambda>ms. Inr ''sel'')
              (querier0 (silent\<lparr>on_Series := ([api_a, api_b], [''slow''], None)\<rparr>)) None
              [Matcher MatchEqual ''job'' ''api''] world0) =
          Inr (Some ss, [Fundamental ''slow''], None) \<and>
     length (series ss) = length [api_a, api_b] \<and>
     map Series_Labels (series ss) = [api_a, api_b] \<and>
     (\<forall>s \<in> set (series ss). it_Points (iterator s) = [] \<and> iterator_Next (iterator s) = None)"
  using Select_metadata_series [where mts = "\<lambda>ms. Inr ''sel''" and sel = "''sel''"
      and ms = "[Matcher MatchEqual ''job'' ''api'']"
      and h = "querier0 (silent\<lparr>on_Series := ([api_a, api_b], [''slow''], None)\<rparr>)"
      and w = world0 and ls = "[api_a, api_b]" and ws = "[''slow'']"
      and wa = "record_call (CallSeries (Context 0) [''sel''] 5 9) (snd (time_Now world0))"]
  by (simp add: querier0_simps recording_client_simps errors_New_def)

text \<open>
  C6. Whenever \<^verbatim>\<open>Select\<close> returns an error, the series set it returns is nil.
\<close>

theorem Select_error_nil_set:
  "fst (ProxyQuerier_Select mts h selectParams ms w) = Inr (ss, warnings, Some e) \<Longrightarrow> ss = None"
  by (cases selectParams; cases "mts ms")
     (auto simp: Select_data_path Select_metadata_path Select_translation_failure Let_def
        Select_tail_def split: option.splits sum.splits)

theorem Select_error_nil_set_witness:
  "(case fst (ProxyQuerier_Select (\<lambda>ms. Inl (Fundamental ''bad matcher'')) (querier0 silent) None
              [Matcher MatchRegexp ''job'' ''(''] world0) of
      Inl p \<Rightarrow> False
    | Inr (ss, warnings, err) \<Rightarrow> err = Some (Fundamental ''bad matcher'') \<and> ss = None)"
  using Select_error_nil_set [where mts = "\<lambda>ms. Inl (Fundamental ''bad matcher'')"
      and h = "querier0 silent" and selectParams = None
      and ms = "[Matcher MatchRegexp ''job'' ''('']" and w = world0
      and ss = None and warnings = "[]" and e = "Fundamental ''bad matcher''"]
  by (simp add: Select_translation_failure)

text \<open>
  C8. The warnings conversion keeps the count and the order: the i-th engine warning is
  the one made of the i-th remote warning. \<^verbatim>\<open>LabelNames\<close> and \<^verbatim>\<open>LabelValues\<close> return the
  conversion of the warnings the client returned.
\<close>

theorem WarningsConvert_elementwise:
  "length (WarningsConvert ws) = length ws \<and>
   (\<forall>i<length ws. WarningsConvert ws ! i = errors_New (ws ! i)) \<and>
   fst (snd (fst (ProxyQuerier_LabelNames h w))) =
     WarningsConvert (fst (snd (fst (LabelNames (Client h) (Ctx h) (snd (time_Now w)))))) \<and>
   fst (snd (fst (ProxyQuerier_LabelValues h name w))) =
     WarningsConvert (fst (snd (fst (LabelValues (Client h) (Ctx h) name (snd (time_Now w)))))) \<and>
   (case fst (ProxyQuerier_Select mts h (Some sp) ms w) of
      Inl p \<Rightarrow> True
    | Inr (ss, warnings, err) \<Rightarrow>
        warnings = WarningsConvert (fst (snd (fst (GetValue (Client h) (Ctx h)
          (timestamp_Time (sp_Start sp)) (timestamp_Time (sp_End sp)) ms (snd (time_Now w)))))))"
  by (simp add: length_WarningsConvert nth_WarningsConvert ProxyQuerier_LabelNames_def
      ProxyQuerier_LabelValues_def Select_data_path Select_tail_def Let_def case_prod_beta
      split: option.splits sum.splits)

theorem WarningsConvert_elementwise_witness:
  "WarningsConvert [''first'', ''second'', ''first''] =
     [errors_New ''first'', errors_New ''second'', errors_New ''first''] \<and>
   WarningsConvert [''first'', ''second'', ''first''] ! 1 = errors_New ''second'' \<and>
   WarningsConvert [] = []"
  using WarningsConvert_elementwise [where ws = "[''first'', ''second'', ''first'']"]
  by simp

lemma snd_Select_tail:
  "snd (Select_tail r ws err start sp ms w) = Select_deferred start sp ms w"
  by (simp add: Select_tail_def split: option.splits sum.splits)

text \<open>
  C9. On the metadata path the whole matcher list is translated once, into one selector
  string, and the only thing \<^verbatim>\<open>Select\<close> does to the world between its first clock reading
  and its log line is one \<^verbatim>\<open>Series\<close> call whose selector list is that one string, however
  many matchers there are.
\<close>

theorem Select_single_selector:
  assumes "mts ms = Inr sel"
  shows "snd (ProxyQuerier_Select mts h None ms w) =
       Select_deferred (clock w (reads w)) None ms
         (snd (Series (Client h) (Ctx h) [sel] (Start h) (End h) (snd (time_Now w)))) \<and>
     map call_matches (drop (length (remote v))
         (remote (snd (ProxyQuerier_Select mts (g\<lparr>Client := recording_client rs\<rparr>) None ms v)))) =
       [[sel]]"
  using assms
  by (simp add: Select_metadata_path Let_def snd_Select_tail remote_Select_deferred
      recording_client_simps remote_record_call remote_simps call_matches_def
      split: option.splits)

theorem Select_single_selector_witness:
  "map call_matches (remote (snd (ProxyQuerier_Select (\<lambda>ms. Inr (concat (map mName ms)))
       ((querier0 silent)\<lparr>Client := recording_client silent\<rparr>) None
       [Matcher MatchEqual ''job'' ''api'', Matcher MatchNotEqual ''env'' ''dev'',
        Matcher MatchRegexp ''instance'' ''a.*''] world0))) = [[''jobenvinstance'']]"
  using Select_single_selector [where mts = "\<lambda>ms. Inr (concat (map mName ms))"
      and ms = "[Matcher MatchEqual ''job'' ''api'', Matcher MatchNotEqual ''env'' ''dev'',
        Matcher MatchRegexp ''instance'' ''a.*'']" and sel = "''jobenvinstance''"
      and g = "querier0 silent" and rs = silent and v = world0 and h = "querier0 silent"
      and w = world0]
  by (simp add: querier0_simps remote_world0)

lemma length_retVector: "length (retVector ls) = length ls"
  by (induction ls) simp_all

lemma nth_retVector:
  "j < length ls \<Longrightarrow> retVector ls ! j = \<lparr>Metric = ls ! j, Value = 0, Timestamp = 0\<rparr>"
proof (induction ls arbitrary: j)
  case Nil
  then show ?case by simp
next
  case (Cons labelset ls)
  then show ?case by (cases j) simp_all
qed

text \<open>
  C10. The vector synthesized on the metadata path has one sample per discovered
  labelset, in order; each sample has that labelset as \<^verbatim>\<open>Metric\<close> and zero \<^verbatim>\<open>Value\<close> and
  \<^verbatim>\<open>Timestamp\<close>, and a sample has no other field. It is this vector that \<^verbatim>\<open>Select\<close> hands on.
\<close>

theorem Select_sentinel_zero:
  "length (retVector ls) = length ls \<and>
   (\<forall>j<length ls. retVector ls ! j = \<lparr>Metric = ls ! j, Value = 0, Timestamp = 0\<rparr>) \<and>
   (mts ms = Inr sel \<longrightarrow>
      Series (Client h) (Ctx h) [sel] (Start h) (End h) (snd (time_Now w)) = ((ls, ws, None), wa) \<longrightarrow>
      ProxyQuerier_Select mts h None ms w =
        Select_tail (Some (Vector (retVector ls))) (WarningsConvert ws) None
          (clock w (reads w)) None ms wa)"
  by (simp add: length_retVector nth_retVector Select_metadata_path Let_def)

theorem Select_sentinel_zero_witness:
  "retVector [api_a, api_b] =
     [\<lparr>Metric = api_a, Value = 0, Timestamp = 0\<rparr>, \<lparr>Metric = api_b, Value = 0, Timestamp = 0\<rparr>] \<and>
   retVector [api_a, api_b] ! 1 = \<lparr>Metric = api_b, Value = 0, Timestamp = 0\<rparr> \<and>
   ProxyQuerier_Select (\<lambda>ms. Inr ''sel'')
       (querier0 (silent\<lparr>on_Series := ([api_a, api_b], [], None)\<rparr>)) None [] world0 =
     Select_tail (Some (Vector (retVector [api_a, api_b]))) [] None 0 None []
       (record_call (CallSeries (Context 0) [''sel''] 5 9) (snd (time_Now world0)))"
  using Select_sentinel_zero [where ls = "[api_a, api_b]" and mts = "\<lambda>ms. Inr ''sel''"
      and sel = "''sel''" and ms = "[]" and ws = "[]" and w = world0
      and h = "querier0 (silent\<lparr>on_Series := ([api_a, api_b], [], None)\<rparr>)"
      and wa = "record_call (CallSeries (Context 0) [''sel''] 5 9) (snd (time_Now world0))"]
  by (simp add: querier0_simps recording_client_simps world0_def)

end
